theory Spec2Isabelle
  imports Complex_Main
begin

section \<open>JavaScript strings, console output and the file system\<close>

text \<open>
  A JavaScript string is a sequence of UTF-16 code units. The model keeps the code units
  as natural numbers, so that the characters beyond ASCII which the sources mention (the
  curly quotes of the auto-repair pass, the Unicode white space of \<open>trim\<close> and \<open>\s\<close>)
  are ordinary values. \<open>js\<close> reads an ASCII literal as a JavaScript string.
\<close>

type_synonym jsstring = "nat list"

definition js :: "string \<Rightarrow> jsstring" where
  "js s = map of_char s"

text \<open>\<open>s.slice(a, b)\<close> for indices \<open>0 \<le> a\<close>, \<open>0 \<le> b\<close>: empty when \<open>b \<le> a\<close>, clipped at the
  end of the string.\<close>

definition slice :: "jsstring \<Rightarrow> nat \<Rightarrow> nat \<Rightarrow> jsstring" where
  "slice s a b = take (b - a) (drop a s)"

text \<open>What the program writes to the console, by level; each entry holds the arguments of
  the call.\<close>

datatype log_entry =
    Log "jsstring list"
  | Warn "jsstring list"
  | ErrorLog "jsstring list"

text \<open>The warning sign the sources print in front of their warnings: U+26A0 U+FE0F.\<close>

definition warning_sign :: jsstring where
  "warning_sign = [9888, 65039]"

datatype js_error =
    Error jsstring
  | AbortError jsstring
  | TypeError jsstring
  | SyntaxError jsstring
  | ENOENT jsstring
  | ENOTDIR jsstring
  | EISDIR jsstring

text \<open>The file system as the synchronous \<open>fs\<close> calls see it: a path names a file with its
  text, a directory with the names of its entries, or nothing.\<close>

datatype fs_entry = File jsstring | Dir "jsstring list"

type_synonym filesystem = "jsstring \<Rightarrow> fs_entry option"

definition existsSync :: "filesystem \<Rightarrow> jsstring \<Rightarrow> bool" where
  "existsSync fs p = (case fs p of None \<Rightarrow> False | Some e \<Rightarrow> True)"

definition readFileSync :: "filesystem \<Rightarrow> jsstring \<Rightarrow> js_error + jsstring" where
  "readFileSync fs p =
     (case fs p of
        None \<Rightarrow> Inl (ENOENT p)
      | Some (Dir names) \<Rightarrow> Inl (EISDIR p)
      | Some (File text) \<Rightarrow> Inr text)"

definition readdirSync :: "filesystem \<Rightarrow> jsstring \<Rightarrow> js_error + jsstring list" where
  "readdirSync fs p =
     (case fs p of
        None \<Rightarrow> Inl (ENOENT p)
      | Some (File text) \<Rightarrow> Inl (ENOTDIR p)
      | Some (Dir names) \<Rightarrow> Inr names)"

subsection \<open>String functions\<close>

text \<open>White space as \<open>String.prototype.trim\<close> and the pattern \<open>\s\<close> see it (WhiteSpace and
  LineTerminator of the language), the line terminators that \<open>.\<close> does not match, and the
  characters of \<open>\w\<close>.\<close>

definition is_js_space :: "nat \<Rightarrow> bool" where
  "is_js_space c = (c \<in> {9, 10, 11, 12, 13, 32, 160, 5760, 8232, 8233, 8239, 8287, 12288, 65279}
                     \<or> (8192 \<le> c \<and> c \<le> 8202))"

definition is_line_terminator :: "nat \<Rightarrow> bool" where
  "is_line_terminator c = (c \<in> {10, 13, 8232, 8233})"

definition is_word_char :: "nat \<Rightarrow> bool" where
  "is_word_char c = ((97 \<le> c \<and> c \<le> 122) \<or> (65 \<le> c \<and> c \<le> 90) \<or> (48 \<le> c \<and> c \<le> 57) \<or> c = 95)"

text \<open>Case mapping on the ASCII letters. The program upper-cases only the HTTP verb a
  route pattern has captured, which consists of ASCII letters.\<close>

definition ascii_upper :: "nat \<Rightarrow> nat" where
  "ascii_upper c = (if 97 \<le> c \<and> c \<le> 122 then c - 32 else c)"

definition ascii_lower :: "nat \<Rightarrow> nat" where
  "ascii_lower c = (if 65 \<le> c \<and> c \<le> 90 then c + 32 else c)"

definition toUpperCase :: "jsstring \<Rightarrow> jsstring" where
  "toUpperCase s = map ascii_upper s"

text \<open>\<open>s.trim()\<close>.\<close>

definition trim :: "jsstring \<Rightarrow> jsstring" where
  "trim s = rev (dropWhile is_js_space (rev (dropWhile is_js_space s)))"

subsection \<open>The path module\<close>

text \<open>The functions of Node's \<open>path\<close> module that the sources call are parameters of the
  model: \<open>path.basename(p, ext)\<close>, \<open>path.join(dir, name)\<close> and \<open>path.relative(from, to)\<close>.\<close>

record path_module =
  path_basename :: "jsstring \<Rightarrow> jsstring option \<Rightarrow> jsstring"
  path_join :: "jsstring \<Rightarrow> jsstring \<Rightarrow> jsstring"
  path_relative :: "jsstring \<Rightarrow> jsstring \<Rightarrow> jsstring"

text \<open>\<open>s.endsWith(suffix)\<close>, and \<open>s.replace(p, r)\<close> for a string \<open>p\<close> (the first occurrence
  is replaced; the replacement texts of the program hold no \<open>$\<close>).\<close>

definition endsWith :: "jsstring \<Rightarrow> jsstring \<Rightarrow> bool" where
  "endsWith s suffix = (length suffix \<le> length s \<and> drop (length s - length suffix) s = suffix)"

fun replace_string :: "jsstring \<Rightarrow> jsstring \<Rightarrow> jsstring \<Rightarrow> jsstring" where
  "replace_string [] p r = (if p = [] then r else [])"
| "replace_string (c # cs) p r =
     (if take (length p) (c # cs) = p then r @ drop (length p) (c # cs)
      else c # replace_string cs p r)"


section \<open>Regular expressions\<close>

text \<open>
  The patterns of the sources are values of \<open>regex\<close>, and \<open>rmatch\<close> is the backtracking
  matcher of the language: \<open>rmatch r ic x\<close> lists the states in which \<open>r\<close> can end when
  started in state \<open>x\<close>, in the order in which backtracking tries them, so that the head of
  the list is the match the runtime returns. \<open>ic\<close> is the flag \<open>i\<close>. A state is the
  position, the input from there on, and the captures made so far.

  \<open>Star greedy r\<close> is \<open>r*\<close> (\<open>r*?\<close> when not greedy), \<open>Plus\<close> is \<open>r+\<close>, \<open>Opt\<close> is \<open>r?\<close>, \<open>Bol\<close> and
  \<open>Eol\<close> are \<open>^\<close> and \<open>$\<close> without the flag \<open>m\<close>, \<open>Group n r\<close> is the \<open>n\<close>-th pair of
  parentheses. As in the language, an iteration of a star (and the one iteration of
  \<open>r?\<close>) that consumes nothing is rejected; so a star runs at most once for each code unit
  left, which is what the first argument of \<open>star\<close> counts. No pattern of the program has a
  group under a star or a plus, so no capture is ever reset between iterations.

  With the flag \<open>i\<close> two characters match when their canonical forms are equal. All
  characters of the program's patterns are ASCII, and no character beyond ASCII
  canonicalises to an ASCII one, so the canonical form is the ASCII upper case.
\<close>

datatype class_item = CChar nat | CRange nat nat | CSpace | CNotSpace | CWord

datatype regex =
    Empty
  | Lit nat
  | Dot
  | Class "class_item list"
  | NotClass "class_item list"
  | Seq regex regex
  | Alt regex regex
  | Star bool regex
  | Plus bool regex
  | Opt regex
  | Group nat regex
  | Bol
  | Eol

datatype mstate = MState (pos: nat) (rest: jsstring) (caps: "(nat \<times> jsstring) list")

definition canonicalize :: "bool \<Rightarrow> nat \<Rightarrow> nat" where
  "canonicalize ic c = (if ic then ascii_upper c else c)"

fun in_item :: "bool \<Rightarrow> nat \<Rightarrow> class_item \<Rightarrow> bool" where
  "in_item ic d (CChar c) = (canonicalize ic c = canonicalize ic d)"
| "in_item ic d (CRange lo hi) =
     ((lo \<le> d \<and> d \<le> hi)
      \<or> (ic \<and> ((lo \<le> ascii_upper d \<and> ascii_upper d \<le> hi) \<or> (lo \<le> ascii_lower d \<and> ascii_lower d \<le> hi))))"
| "in_item ic d CSpace = is_js_space d"
| "in_item ic d CNotSpace = (\<not> is_js_space d)"
| "in_item ic d CWord = is_word_char d"

definition in_class :: "bool \<Rightarrow> class_item list \<Rightarrow> nat \<Rightarrow> bool" where
  "in_class ic items d = list_ex (in_item ic d) items"

fun step_char :: "(nat \<Rightarrow> bool) \<Rightarrow> mstate \<Rightarrow> mstate list" where
  "step_char accepts (MState i [] cs) = []"
| "step_char accepts (MState i (d # ds) cs) = (if accepts d then [MState (Suc i) ds cs] else [])"

fun star :: "jsstring \<Rightarrow> bool \<Rightarrow> (mstate \<Rightarrow> mstate list) \<Rightarrow> mstate \<Rightarrow> mstate list" where
  "star [] greedy m x = [x]"
| "star (f # fuel) greedy m x =
     (let more = concat (map (star fuel greedy m) (filter (\<lambda>y. pos y \<noteq> pos x) (m x)))
      in if greedy then more @ [x] else x # more)"

fun set_group :: "nat \<Rightarrow> mstate \<Rightarrow> mstate \<Rightarrow> mstate" where
  "set_group n (MState i s cs) (MState j t ds) = MState j t ((n, take (j - i) s) # ds)"

primrec rmatch :: "regex \<Rightarrow> bool \<Rightarrow> mstate \<Rightarrow> mstate list" where
  "rmatch Empty ic x = [x]"
| "rmatch (Lit c) ic x = step_char (\<lambda>d. canonicalize ic d = canonicalize ic c) x"
| "rmatch Dot ic x = step_char (\<lambda>d. \<not> is_line_terminator d) x"
| "rmatch (Class items) ic x = step_char (in_class ic items) x"
| "rmatch (NotClass items) ic x = step_char (\<lambda>d. \<not> in_class ic items d) x"
| "rmatch (Seq a b) ic x = concat (map (rmatch b ic) (rmatch a ic x))"
| "rmatch (Alt a b) ic x = rmatch a ic x @ rmatch b ic x"
| "rmatch (Star greedy a) ic x = star (rest x) greedy (rmatch a ic) x"
| "rmatch (Plus greedy a) ic x =
     concat (map (\<lambda>y. star (rest y) greedy (rmatch a ic) y) (rmatch a ic x))"
| "rmatch (Opt a) ic x = filter (\<lambda>y. pos y \<noteq> pos x) (rmatch a ic x) @ [x]"
| "rmatch (Group n a) ic x = map (set_group n x) (rmatch a ic x)"
| "rmatch Bol ic x = (if pos x = 0 then [x] else [])"
| "rmatch Eol ic x = (if rest x = [] then [x] else [])"

text \<open>The match starting at position \<open>i\<close>, the first match at or after it (\<open>exec\<close> without
  the flag \<open>g\<close>, \<open>String.prototype.match\<close>), and the text of a group (empty when the group
  took no part).\<close>

definition match_at :: "regex \<Rightarrow> bool \<Rightarrow> nat \<Rightarrow> jsstring \<Rightarrow> mstate option" where
  "match_at r ic i s = (case rmatch r ic (MState i s []) of [] \<Rightarrow> None | y # ys \<Rightarrow> Some y)"

fun search_from :: "regex \<Rightarrow> bool \<Rightarrow> nat \<Rightarrow> jsstring \<Rightarrow> (nat \<times> mstate) option" where
  "search_from r ic i [] = (case match_at r ic i [] of Some y \<Rightarrow> Some (i, y) | None \<Rightarrow> None)"
| "search_from r ic i (c # cs) =
     (case match_at r ic i (c # cs) of
        Some y \<Rightarrow> Some (i, y)
      | None \<Rightarrow> search_from r ic (Suc i) cs)"

definition captured :: "mstate \<Rightarrow> nat \<Rightarrow> jsstring" where
  "captured y n = (case map_of (caps y) n of None \<Rightarrow> [] | Some v \<Rightarrow> v)"

text \<open>
  The loop \<open>while ((match = re.exec(text)) !== null) { ... }\<close> over a pattern with the flag
  \<open>g\<close>: every match, each search starting where the last match ended. \<open>skip\<close> counts the
  code units still inside the last match. An empty match would leave \<open>lastIndex\<close> where it
  was and the loop would not end: that is the result \<open>None\<close>.
\<close>

fun exec_loop :: "regex \<Rightarrow> bool \<Rightarrow> nat \<Rightarrow> nat \<Rightarrow> jsstring \<Rightarrow> mstate list option" where
  "exec_loop r ic i skip [] =
     (if skip \<noteq> 0 then Some []
      else (case match_at r ic i [] of None \<Rightarrow> Some [] | Some y \<Rightarrow> None))"
| "exec_loop r ic i skip (c # cs) =
     (if skip \<noteq> 0 then exec_loop r ic (Suc i) (skip - 1) cs
      else (case match_at r ic i (c # cs) of
              None \<Rightarrow> exec_loop r ic (Suc i) 0 cs
            | Some y \<Rightarrow>
                if pos y = i then None
                else map_option ((#) y) (exec_loop r ic (Suc i) (pos y - i - 1) cs)))"

text \<open>Notation for patterns: a sequence, a literal character, a literal string, and the
  members of a character class.\<close>

fun seq :: "regex list \<Rightarrow> regex" where
  "seq [] = Empty"
| "seq [r] = r"
| "seq (r # rs) = Seq r (seq rs)"

definition chr :: "char \<Rightarrow> regex" where
  "chr c = Lit (of_char c)"

definition str :: "string \<Rightarrow> regex" where
  "str s = seq (map chr s)"

definition cc :: "char \<Rightarrow> class_item" where
  "cc c = CChar (of_char c)"

definition rng :: "char \<Rightarrow> char \<Rightarrow> class_item" where
  "rng a b = CRange (of_char a) (of_char b)"

text \<open>\<open>s.replace(re, template)\<close>: with the flag \<open>g\<close> every match is replaced, searching on
  from the end of each match (one code unit further after an empty match); without it the
  first match only. A template is literal text and group references \<open>$n\<close>.\<close>

datatype template_part = TLit jsstring | TGroup nat

fun expand :: "template_part list \<Rightarrow> mstate \<Rightarrow> jsstring" where
  "expand [] y = []"
| "expand (TLit s # ts) y = s @ expand ts y"
| "expand (TGroup n # ts) y = captured y n @ expand ts y"

fun replace_scan :: "regex \<Rightarrow> bool \<Rightarrow> template_part list \<Rightarrow> nat \<Rightarrow> nat \<Rightarrow> jsstring \<Rightarrow> jsstring" where
  "replace_scan r ic t i skip [] =
     (if skip \<noteq> 0 then []
      else (case match_at r ic i [] of None \<Rightarrow> [] | Some y \<Rightarrow> expand t y))"
| "replace_scan r ic t i skip (c # cs) =
     (if skip \<noteq> 0 then replace_scan r ic t (Suc i) (skip - 1) cs
      else (case match_at r ic i (c # cs) of
              None \<Rightarrow> c # replace_scan r ic t (Suc i) 0 cs
            | Some y \<Rightarrow>
                if pos y = i then expand t y @ c # replace_scan r ic t (Suc i) 0 cs
                else expand t y @ replace_scan r ic t (Suc i) (pos y - i - 1) cs))"

definition replace_all :: "regex \<Rightarrow> bool \<Rightarrow> template_part list \<Rightarrow> jsstring \<Rightarrow> jsstring" where
  "replace_all r ic t s = replace_scan r ic t 0 0 s"

definition replace_first :: "regex \<Rightarrow> bool \<Rightarrow> template_part list \<Rightarrow> jsstring \<Rightarrow> jsstring" where
  "replace_first r ic t s =
     (case search_from r ic 0 s of
        None \<Rightarrow> s
      | Some (i, y) \<Rightarrow> take i s @ expand t y @ rest y)"

text \<open>\<open>s.indexOf(c)\<close> and \<open>s.lastIndexOf(c)\<close> for a single character \<open>c\<close>; \<open>None\<close> is \<open>-1\<close>.\<close>

fun indexOf :: "jsstring \<Rightarrow> nat \<Rightarrow> nat option" where
  "indexOf [] c = None"
| "indexOf (d # ds) c = (if d = c then Some 0 else map_option Suc (indexOf ds c))"

definition lastIndexOf :: "jsstring \<Rightarrow> nat \<Rightarrow> nat option" where
  "lastIndexOf s c = map_option (\<lambda>i. length s - 1 - i) (indexOf (rev s) c)"

section \<open>JSON.parse\<close>

text \<open>
  A JSON value. A number is kept as the exact value of its literal; the runtime holds the
  nearest double, which matters to this program only where a number is tested for truth.
  An object keeps its members in source order, repeated keys included; reading a property
  takes the last.

  \<open>JSON_parse\<close> is \<open>None\<close> where \<open>JSON.parse\<close> throws a syntax error. It works in two
  passes over the grammar of ECMA-404: \<open>lex_json\<close> cuts the text into tokens, \<open>parse_tokens\<close>
  builds the value with a stack of the arrays and objects that are still open.
\<close>

datatype json =
    JNull
  | JBool bool
  | JNumber rat
  | JString jsstring
  | JArray "json list"
  | JObject "(jsstring \<times> json) list"

datatype token =
    TLBrace | TRBrace | TLBracket | TRBracket | TColon | TComma
  | TString jsstring | TNumber rat | TTrue | TFalse | TNull

text \<open>Numbers: \<open>-? (0 | [1-9][0-9]*) (. [0-9]+)? ([eE] [+-]? [0-9]+)?\<close>.\<close>

datatype num_state = NMinus | NZero | NInt | NPoint | NFrac | NE | NESign | NExp

record num_acc =
  negative :: bool
  mantissa :: nat
  frac_digits :: nat
  exp_negative :: bool
  exponent :: nat

definition num_value :: "num_acc \<Rightarrow> rat" where
  "num_value a =
     (let m = (if negative a then - of_nat (mantissa a) else of_nat (mantissa a)) / 10 ^ frac_digits a
      in if exp_negative a then m / 10 ^ exponent a else m * 10 ^ exponent a)"

text \<open>The lexer's modes: between tokens, inside a string (with the characters read so far,
  last first), after a backslash, inside \<open>\uXXXX\<close>, inside \<open>true\<close>, \<open>false\<close> or \<open>null\<close>, and
  inside a number.\<close>

datatype lex_mode =
    LTop
  | LStr jsstring
  | LEsc jsstring
  | LHex jsstring nat nat
  | LLit jsstring token
  | LNum num_state num_acc

definition is_json_ws :: "nat \<Rightarrow> bool" where
  "is_json_ws c = (c = 32 \<or> c = 9 \<or> c = 10 \<or> c = 13)"

definition is_digit :: "nat \<Rightarrow> bool" where
  "is_digit c = (48 \<le> c \<and> c \<le> 57)"

definition hex_value :: "nat \<Rightarrow> nat option" where
  "hex_value c =
     (if 48 \<le> c \<and> c \<le> 57 then Some (c - 48)
      else if 97 \<le> c \<and> c \<le> 102 then Some (c - 87)
      else if 65 \<le> c \<and> c \<le> 70 then Some (c - 55)
      else None)"

definition escape_value :: "nat \<Rightarrow> nat option" where
  "escape_value c =
     (if c = 34 then Some 34 else if c = 92 then Some 92 else if c = 47 then Some 47
      else if c = 98 then Some 8 else if c = 102 then Some 12 else if c = 110 then Some 10
      else if c = 114 then Some 13 else if c = 116 then Some 9 else None)"

definition emit :: "token \<Rightarrow> token list option \<Rightarrow> token list option" where
  "emit t r = map_option ((#) t) r"

definition num_zero :: num_acc where
  "num_zero = \<lparr>negative = False, mantissa = 0, frac_digits = 0, exp_negative = False, exponent = 0\<rparr>"

definition num_accepting :: "num_state \<Rightarrow> bool" where
  "num_accepting ns = (ns = NZero \<or> ns = NInt \<or> ns = NFrac \<or> ns = NExp)"

fun num_step :: "num_state \<Rightarrow> num_acc \<Rightarrow> nat \<Rightarrow> (num_state \<times> num_acc) option" where
  "num_step NMinus a c =
     (if c = 48 then Some (NZero, a)
      else if is_digit c then Some (NInt, a\<lparr>mantissa := c - 48\<rparr>)
      else None)"
| "num_step NZero a c =
     (if c = 46 then Some (NPoint, a)
      else if c = 101 \<or> c = 69 then Some (NE, a)
      else None)"
| "num_step NInt a c =
     (if is_digit c then Some (NInt, a\<lparr>mantissa := 10 * mantissa a + (c - 48)\<rparr>)
      else if c = 46 then Some (NPoint, a)
      else if c = 101 \<or> c = 69 then Some (NE, a)
      else None)"
| "num_step NPoint a c =
     (if is_digit c
      then Some (NFrac, a\<lparr>mantissa := 10 * mantissa a + (c - 48), frac_digits := Suc (frac_digits a)\<rparr>)
      else None)"
| "num_step NFrac a c =
     (if is_digit c
      then Some (NFrac, a\<lparr>mantissa := 10 * mantissa a + (c - 48), frac_digits := Suc (frac_digits a)\<rparr>)
      else if c = 101 \<or> c = 69 then Some (NE, a)
      else None)"
| "num_step NE a c =
     (if c = 43 then Some (NESign, a)
      else if c = 45 then Some (NESign, a\<lparr>exp_negative := True\<rparr>)
      else if is_digit c then Some (NExp, a\<lparr>exponent := c - 48\<rparr>)
      else None)"
| "num_step NESign a c =
     (if is_digit c then Some (NExp, a\<lparr>exponent := c - 48\<rparr>) else None)"
| "num_step NExp a c =
     (if is_digit c then Some (NExp, a\<lparr>exponent := 10 * exponent a + (c - 48)\<rparr>) else None)"

function lex_json :: "lex_mode \<Rightarrow> jsstring \<Rightarrow> token list option" where
  "lex_json LTop [] = Some []"
| "lex_json LTop (c # cs) =
     (if is_json_ws c then lex_json LTop cs
      else if c = 123 then emit TLBrace (lex_json LTop cs)
      else if c = 125 then emit TRBrace (lex_json LTop cs)
      else if c = 91 then emit TLBracket (lex_json LTop cs)
      else if c = 93 then emit TRBracket (lex_json LTop cs)
      else if c = 58 then emit TColon (lex_json LTop cs)
      else if c = 44 then emit TComma (lex_json LTop cs)
      else if c = 34 then lex_json (LStr []) cs
      else if c = 45 then lex_json (LNum NMinus (num_zero\<lparr>negative := True\<rparr>)) cs
      else if c = 48 then lex_json (LNum NZero num_zero) cs
      else if is_digit c then lex_json (LNum NInt (num_zero\<lparr>mantissa := c - 48\<rparr>)) cs
      else if c = 116 then lex_json (LLit (js ''rue'') TTrue) cs
      else if c = 102 then lex_json (LLit (js ''alse'') TFalse) cs
      else if c = 110 then lex_json (LLit (js ''ull'') TNull) cs
      else None)"
| "lex_json (LStr acc) [] = None"
| "lex_json (LStr acc) (c # cs) =
     (if c = 34 then emit (TString (rev acc)) (lex_json LTop cs)
      else if c = 92 then lex_json (LEsc acc) cs
      else if c < 32 then None
      else lex_json (LStr (c # acc)) cs)"
| "lex_json (LEsc acc) [] = None"
| "lex_json (LEsc acc) (c # cs) =
     (if c = 117 then lex_json (LHex acc 0 4) cs
      else (case escape_value c of
              None \<Rightarrow> None
            | Some v \<Rightarrow> lex_json (LStr (v # acc)) cs))"
| "lex_json (LHex acc v n) [] = None"
| "lex_json (LHex acc v n) (c # cs) =
     (case hex_value c of
        None \<Rightarrow> None
      | Some h \<Rightarrow> if n \<le> 1 then lex_json (LStr ((16 * v + h) # acc)) cs
                  else lex_json (LHex acc (16 * v + h) (n - 1)) cs)"
| "lex_json (LLit [] t) cs = emit t (lex_json LTop cs)"
| "lex_json (LLit (e # es) t) [] = None"
| "lex_json (LLit (e # es) t) (c # cs) = (if c = e then lex_json (LLit es t) cs else None)"
| "lex_json (LNum ns a) [] = (if num_accepting ns then Some [TNumber (num_value a)] else None)"
| "lex_json (LNum ns a) (c # cs) =
     (case num_step ns a c of
        Some (ns', a') \<Rightarrow> lex_json (LNum ns' a') cs
      | None \<Rightarrow> if num_accepting ns then emit (TNumber (num_value a)) (lex_json LTop (c # cs)) else None)"
  by pat_completeness auto
termination
  by (relation "measure (\<lambda>(m, cs). 2 * length cs + (case m of LTop \<Rightarrow> 0 | _ \<Rightarrow> 1))")
     (auto split: lex_mode.splits)

text \<open>The parser: the open arrays and objects (elements and members read so far, last
  first; an object also holds the key whose value is being read), and what may come next.\<close>

datatype frame =
    FArr "json list"
  | FObj "(jsstring \<times> json) list" "jsstring option"

datatype expect = Value | ValueOrEnd | KeyOrEnd | Key | Colon | CommaOrEnd | Finished json

fun finish :: "json \<Rightarrow> frame list \<Rightarrow> (expect \<times> frame list) option" where
  "finish v [] = Some (Finished v, [])"
| "finish v (FArr es # st) = Some (CommaOrEnd, FArr (v # es) # st)"
| "finish v (FObj ms (Some k) # st) = Some (CommaOrEnd, FObj ((k, v) # ms) None # st)"
| "finish v (FObj ms None # st) = None"

fun start_value :: "token \<Rightarrow> frame list \<Rightarrow> (expect \<times> frame list) option" where
  "start_value TLBrace st = Some (KeyOrEnd, FObj [] None # st)"
| "start_value TLBracket st = Some (ValueOrEnd, FArr [] # st)"
| "start_value (TString s) st = finish (JString s) st"
| "start_value (TNumber q) st = finish (JNumber q) st"
| "start_value TTrue st = finish (JBool True) st"
| "start_value TFalse st = finish (JBool False) st"
| "start_value TNull st = finish JNull st"
| "start_value t st = None"

fun end_array :: "frame list \<Rightarrow> (expect \<times> frame list) option" where
  "end_array (FArr es # st) = finish (JArray (rev es)) st"
| "end_array st = None"

fun end_object :: "frame list \<Rightarrow> (expect \<times> frame list) option" where
  "end_object (FObj ms None # st) = finish (JObject (rev ms)) st"
| "end_object st = None"

fun begin_member :: "jsstring \<Rightarrow> frame list \<Rightarrow> (expect \<times> frame list) option" where
  "begin_member k (FObj ms None # st) = Some (Colon, FObj ms (Some k) # st)"
| "begin_member k st = None"

fun after_comma :: "frame list \<Rightarrow> (expect \<times> frame list) option" where
  "after_comma (FArr es # st) = Some (Value, FArr es # st)"
| "after_comma (FObj ms None # st) = Some (Key, FObj ms None # st)"
| "after_comma st = None"

definition parse_step :: "expect \<Rightarrow> frame list \<Rightarrow> token \<Rightarrow> (expect \<times> frame list) option" where
  "parse_step e st t =
     (case e of
        Value \<Rightarrow> start_value t st
      | ValueOrEnd \<Rightarrow> (if t = TRBracket then end_array st else start_value t st)
      | KeyOrEnd \<Rightarrow>
          (case t of TRBrace \<Rightarrow> end_object st | TString k \<Rightarrow> begin_member k st | other \<Rightarrow> None)
      | Key \<Rightarrow> (case t of TString k \<Rightarrow> begin_member k st | other \<Rightarrow> None)
      | Colon \<Rightarrow> (if t = TColon then Some (Value, st) else None)
      | CommaOrEnd \<Rightarrow>
          (case t of
             TComma \<Rightarrow> after_comma st
           | TRBracket \<Rightarrow> end_array st
           | TRBrace \<Rightarrow> end_object st
           | other \<Rightarrow> None)
      | Finished v \<Rightarrow> None)"

fun parse_tokens :: "expect \<Rightarrow> frame list \<Rightarrow> token list \<Rightarrow> json option" where
  "parse_tokens (Finished v) [] [] = Some v"
| "parse_tokens e st [] = None"
| "parse_tokens e st (t # ts) =
     (case parse_step e st t of
        None \<Rightarrow> None
      | Some (e', st') \<Rightarrow> parse_tokens e' st' ts)"

definition JSON_parse :: "jsstring \<Rightarrow> json option" where
  "JSON_parse s = (case lex_json LTop s of None \<Rightarrow> None | Some ts \<Rightarrow> parse_tokens Value [] ts)"

section \<open>Source extractor (analyzer/ast-parser.js)\<close>

text \<open>
  The syntax tree \<open>@babel/parser\<close> returns, as far as \<open>extractFunctionCode\<close> reads it.
  The two visitors look at function declarations and at variable declarators; of a
  declarator's initializer they read the type, the span and the async flag. Every other
  node only matters for the nodes below it, which \<open>traverse\<close> visits in source order.

  \<^item> \<open>FunctionDeclaration id async start end loc kids\<close>: \<open>id\<close> is the declared name
    (\<open>None\<close> for \<open>export default function () {}\<close>), \<open>kids\<close> the parameters and the body.
  \<^item> \<open>VariableDeclarator id init start end loc\<close>: \<open>id\<close> is an \<open>Identifier\<close> or a
    destructuring pattern, \<open>init\<close> the initializer if there is one.
  \<^item> \<open>OtherNode kids\<close>: any other node (the program, statements, blocks, calls, patterns).
\<close>

type_synonym loc = "(nat \<times> nat) \<times> (nat \<times> nat)"

datatype node =
    Identifier jsstring
  | FunctionDeclaration "jsstring option" bool nat nat loc "node list"
  | FunctionExpression bool nat nat "node list"
  | ArrowFunctionExpression bool nat nat "node list"
  | VariableDeclarator node "node option" nat nat loc
  | OtherNode "node list"

record extracted_function =
  name :: jsstring
  code :: jsstring
  loc :: loc
  async :: bool

text \<open>The traversal's state: the variable \<open>extracted\<close> the visitors assign, and whether
  \<open>path.stop()\<close> has been called.\<close>

record traversal =
  extracted :: "extracted_function option"
  stopped :: bool

text \<open>\<open>path.node.id.name\<close> of a declarator: the name of an identifier, undefined for a
  pattern.\<close>

fun id_name :: "node \<Rightarrow> jsstring option" where
  "id_name (Identifier n) = Some n"
| "id_name other = None"

text \<open>The visitor \<open>FunctionDeclaration(path)\<close>.\<close>

definition visit_FunctionDeclaration ::
  "jsstring \<Rightarrow> jsstring \<Rightarrow> jsstring option \<Rightarrow> bool \<Rightarrow> nat \<Rightarrow> nat \<Rightarrow> loc \<Rightarrow> traversal \<Rightarrow> traversal" where
  "visit_FunctionDeclaration handlerName src fid is_async s e l st =
     (if fid = Some handlerName
      then \<lparr>extracted = Some \<lparr>name = handlerName, code = slice src s e, loc = l, async = is_async\<rparr>,
            stopped = True\<rparr>
      else st)"

text \<open>The visitor \<open>VariableDeclarator(path)\<close>: the name must match and the initializer
  must be an arrow function or a function expression.\<close>

definition visit_VariableDeclarator ::
  "jsstring \<Rightarrow> jsstring \<Rightarrow> node \<Rightarrow> node option \<Rightarrow> loc \<Rightarrow> traversal \<Rightarrow> traversal" where
  "visit_VariableDeclarator handlerName src idn ini l st =
     (if id_name idn = Some handlerName
      then (case ini of
              Some (ArrowFunctionExpression is_async s e kids) \<Rightarrow>
                \<lparr>extracted = Some \<lparr>name = handlerName, code = slice src s e, loc = l, async = is_async\<rparr>,
                 stopped = True\<rparr>
            | Some (FunctionExpression is_async s e kids) \<Rightarrow>
                \<lparr>extracted = Some \<lparr>name = handlerName, code = slice src s e, loc = l, async = is_async\<rparr>,
                 stopped = True\<rparr>
            | other \<Rightarrow> st)
      else st)"

text \<open>\<open>traverse(ast, visitors)\<close>: a node's visitor runs before the nodes below it are
  visited, in source order; once \<open>path.stop()\<close> has been called nothing more is visited.\<close>

fun traverse_node :: "jsstring \<Rightarrow> jsstring \<Rightarrow> node \<Rightarrow> traversal \<Rightarrow> traversal"
  and traverse_nodes :: "jsstring \<Rightarrow> jsstring \<Rightarrow> node list \<Rightarrow> traversal \<Rightarrow> traversal"
  and traverse_init :: "jsstring \<Rightarrow> jsstring \<Rightarrow> node option \<Rightarrow> traversal \<Rightarrow> traversal" where
  "traverse_node h src (Identifier n) st = st"
| "traverse_node h src (FunctionDeclaration fid is_async s e l kids) st =
     (let st' = visit_FunctionDeclaration h src fid is_async s e l st
      in if stopped st' then st' else traverse_nodes h src kids st')"
| "traverse_node h src (FunctionExpression is_async s e kids) st = traverse_nodes h src kids st"
| "traverse_node h src (ArrowFunctionExpression is_async s e kids) st = traverse_nodes h src kids st"
| "traverse_node h src (VariableDeclarator idn ini s e l) st =
     (let st' = visit_VariableDeclarator h src idn ini l st
      in if stopped st' then st'
         else (let st'' = traverse_node h src idn st'
               in if stopped st'' then st'' else traverse_init h src ini st''))"
| "traverse_node h src (OtherNode kids) st = traverse_nodes h src kids st"
| "traverse_nodes h src [] st = st"
| "traverse_nodes h src (k # ks) st =
     (let st' = traverse_node h src k st
      in if stopped st' then st' else traverse_nodes h src ks st')"
| "traverse_init h src None st = st"
| "traverse_init h src (Some k) st = traverse_node h src k st"

text \<open>
  \<open>extractFunctionCode(filePath, handlerName)\<close>. The parser is a library: it is the
  parameter \<open>parse\<close>, which returns the tree of a source text or throws a syntax error
  (the call is not inside a \<open>try\<close>, so that error leaves the function). The result is the
  value returned together with the console output.
\<close>

definition extractFunctionCode ::
  "(jsstring \<Rightarrow> js_error + node) \<Rightarrow> path_module \<Rightarrow> filesystem \<Rightarrow> jsstring \<Rightarrow> jsstring
     \<Rightarrow> js_error + (extracted_function option \<times> log_entry list)" where
  "extractFunctionCode parse pm fs filePath handlerName =
     (if \<not> existsSync fs filePath
      then Inr (None, [Warn [warning_sign @ js '' Controller file not found:'', filePath]])
      else (case readFileSync fs filePath of
              Inl err \<Rightarrow> Inl err
            | Inr src \<Rightarrow>
                (case parse src of
                   Inl err \<Rightarrow> Inl err
                 | Inr ast \<Rightarrow>
                     (let result = extracted (traverse_node handlerName src ast
                                     \<lparr>extracted = None, stopped = False\<rparr>)
                      in (case result of
                            None \<Rightarrow>
                              Inr (None, [Warn [warning_sign @ js '' Handler '' @ [39] @ handlerName
                                    @ [39] @ js '' not found in '' @ path_basename pm filePath None]])
                          | Some x \<Rightarrow> Inr (Some x, []))))))"

section \<open>Endpoint scanner (analyzer/route-reflector.js)\<close>

text \<open>
  The repository holds two versions of the scanner. The first exports \<open>scanRoutesFile\<close>
  and \<open>scanRoutesDirectory\<close> and records the controller file of each endpoint; the second
  exports \<open>extractEndpointsFromFile\<close> and its own \<open>scanRoutesDirectory\<close> (here
  \<open>scanRoutesDirectory2\<close>) and records the route file. A result is \<open>None\<close> if a matching
  loop does not end, \<open>Inl\<close> an exception, \<open>Inr\<close> the value returned (with the console output
  where the function writes any).
\<close>

record endpoint =
  method' :: jsstring
  path :: jsstring
  handler :: jsstring

record route_endpoint = endpoint +
  controller :: jsstring

record file_endpoint = endpoint +
  file' :: jsstring

text \<open>First version:
  \<^verbatim>\<open>/router\.(get|post|put|delete|patch)\(\s*["'`](.*?)["'`]\s*,\s*([a-zA-Z0-9_]+)/g\<close>\<close>

definition routeRegex :: regex where
  "routeRegex =
     seq [str ''router.'',
          Group 1 (Alt (str ''get'') (Alt (str ''post'') (Alt (str ''put'')
            (Alt (str ''delete'') (str ''patch''))))),
          chr CHR ''('', Star True (Class [CSpace]),
          Class [cc CHR 0x22, cc CHR 0x27, cc CHR 0x60],
          Group 2 (Star False Dot),
          Class [cc CHR 0x22, cc CHR 0x27, cc CHR 0x60],
          Star True (Class [CSpace]), chr CHR '','', Star True (Class [CSpace]),
          Group 3 (Plus True (Class [rng CHR ''a'' CHR ''z'', rng CHR ''A'' CHR ''Z'', rng CHR ''0'' CHR ''9'', cc CHR ''_'']))]"

definition scanRoutesFile ::
  "path_module \<Rightarrow> filesystem \<Rightarrow> jsstring \<Rightarrow> (js_error + route_endpoint list \<times> log_entry list) option" where
  "scanRoutesFile pm fs filePath =
     (if \<not> existsSync fs filePath
      then Some (Inr ([], [Warn [warning_sign @ js '' Route file not found:'', filePath]]))
      else (case readFileSync fs filePath of
              Inl err \<Rightarrow> Some (Inl err)
            | Inr src \<Rightarrow>
                (let baseName = path_basename pm filePath (Some (js ''.js''));
                     controllerFile = replace_string baseName (js ''.routes'') (js ''.controller.js'')
                 in map_option
                      (\<lambda>ms. Inr (map (\<lambda>m. \<lparr>method' = toUpperCase (captured m 1), path = captured m 2,
                                               handler = captured m 3, controller = controllerFile\<rparr>) ms, []))
                      (exec_loop routeRegex False 0 0 src))))"

fun scan_files ::
  "path_module \<Rightarrow> filesystem \<Rightarrow> jsstring \<Rightarrow> jsstring list
     \<Rightarrow> (js_error + route_endpoint list \<times> log_entry list) option" where
  "scan_files pm fs dirPath [] = Some (Inr ([], []))"
| "scan_files pm fs dirPath (f # files) =
     (case scanRoutesFile pm fs (path_join pm dirPath f) of
        None \<Rightarrow> None
      | Some (Inl err) \<Rightarrow> Some (Inl err)
      | Some (Inr (fileEndpoints, out)) \<Rightarrow>
          (case scan_files pm fs dirPath files of
             None \<Rightarrow> None
           | Some (Inl err) \<Rightarrow> Some (Inl err)
           | Some (Inr (allEndpoints, out')) \<Rightarrow> Some (Inr (fileEndpoints @ allEndpoints, out @ out'))))"

definition scanRoutesDirectory ::
  "path_module \<Rightarrow> filesystem \<Rightarrow> jsstring \<Rightarrow> (js_error + route_endpoint list \<times> log_entry list) option" where
  "scanRoutesDirectory pm fs dirPath =
     (if \<not> existsSync fs dirPath
      then Some (Inr ([], [Warn [warning_sign @ js '' Routes directory not found:'', dirPath]]))
      else (case readdirSync fs dirPath of
              Inl err \<Rightarrow> Some (Inl err)
            | Inr names \<Rightarrow> scan_files pm fs dirPath (filter (\<lambda>f. endsWith f (js ''.js'')) names)))"

text \<open>Second version:
  \<^verbatim>\<open>/router\.(get|post|put|delete|patch|options|head)\s*\(\s*['"`]([^'"`]+)['"`]\s*,\s*([\w$]+)/gi\<close>\<close>

definition routePattern :: regex where
  "routePattern =
     seq [str ''router.'',
          Group 1 (Alt (str ''get'') (Alt (str ''post'') (Alt (str ''put'') (Alt (str ''delete'')
            (Alt (str ''patch'') (Alt (str ''options'') (str ''head''))))))),
          Star True (Class [CSpace]), chr CHR ''('', Star True (Class [CSpace]),
          Class [cc CHR 0x27, cc CHR 0x22, cc CHR 0x60],
          Group 2 (Plus True (NotClass [cc CHR 0x27, cc CHR 0x22, cc CHR 0x60])),
          Class [cc CHR 0x27, cc CHR 0x22, cc CHR 0x60],
          Star True (Class [CSpace]), chr CHR '','', Star True (Class [CSpace]),
          Group 3 (Plus True (Class [CWord, cc CHR ''$'']))]"

definition extractEndpointsFromFile ::
  "path_module \<Rightarrow> jsstring \<Rightarrow> filesystem \<Rightarrow> jsstring \<Rightarrow> (js_error + file_endpoint list) option" where
  "extractEndpointsFromFile pm cwd fs filePath =
     (case readFileSync fs filePath of
        Inl err \<Rightarrow> Some (Inl err)
      | Inr src \<Rightarrow>
          map_option
            (\<lambda>ms. Inr (map (\<lambda>m. \<lparr>method' = toUpperCase (captured m 1), path = captured m 2,
                                     handler = captured m 3, file' = path_relative pm cwd filePath\<rparr>) ms))
            (exec_loop routePattern True 0 0 src))"

fun extract_files ::
  "path_module \<Rightarrow> jsstring \<Rightarrow> filesystem \<Rightarrow> jsstring \<Rightarrow> jsstring list
     \<Rightarrow> (js_error + file_endpoint list) option" where
  "extract_files pm cwd fs routesDir [] = Some (Inr [])"
| "extract_files pm cwd fs routesDir (f # files) =
     (case extractEndpointsFromFile pm cwd fs (path_join pm routesDir f) of
        None \<Rightarrow> None
      | Some (Inl err) \<Rightarrow> Some (Inl err)
      | Some (Inr endpoints) \<Rightarrow>
          (case extract_files pm cwd fs routesDir files of
             None \<Rightarrow> None
           | Some (Inl err) \<Rightarrow> Some (Inl err)
           | Some (Inr allEndpoints) \<Rightarrow> Some (Inr (endpoints @ allEndpoints))))"

definition scanRoutesDirectory2 ::
  "path_module \<Rightarrow> jsstring \<Rightarrow> filesystem \<Rightarrow> jsstring \<Rightarrow> (js_error + file_endpoint list) option" where
  "scanRoutesDirectory2 pm cwd fs routesDir =
     (case readdirSync fs routesDir of
        Inl err \<Rightarrow> Some (Inl err)
      | Inr names \<Rightarrow> extract_files pm cwd fs routesDir (filter (\<lambda>f. endsWith f (js ''.js'')) names))"

section \<open>Response adapter (genai/adapter.js)\<close>

text \<open>The patterns of \<open>cleanGeminiResponse\<close>, in the order of the source:
  \<^verbatim>\<open>/```json([\s\S]*?)```/i  /```/g  /json/gi  /^[^{}]*?(\{)/  /(\})[^{}]*?$/\<close>
  and, in the repair pass,
  \<^verbatim>\<open>/,\s*([\]}])/g  /}\s*{/g  /]\s*\[/g  /(['"])?([a-zA-Z0-9_]+)(['"])?:/g\<close>
  and the two curly quotes U+201C and U+201D.\<close>

definition fenceRegex :: regex where
  "fenceRegex = seq [str ''```json'', Group 1 (Star False (Class [CSpace, CNotSpace])), str ''```'']"

definition fencesRegex :: regex where
  "fencesRegex = str ''```''"

definition jsonWordRegex :: regex where
  "jsonWordRegex = str ''json''"

definition leadingJunkRegex :: regex where
  "leadingJunkRegex = seq [Bol, Star False (NotClass [cc CHR ''{'', cc CHR ''}'']), Group 1 (chr CHR ''{'')]"

definition trailingJunkRegex :: regex where
  "trailingJunkRegex = seq [Group 1 (chr CHR ''}''), Star False (NotClass [cc CHR ''{'', cc CHR ''}'']), Eol]"

definition trailingCommaRegex :: regex where
  "trailingCommaRegex = seq [chr CHR '','', Star True (Class [CSpace]), Group 1 (Class [cc CHR '']'', cc CHR ''}''])]"

definition adjacentObjectsRegex :: regex where
  "adjacentObjectsRegex = seq [chr CHR ''}'', Star True (Class [CSpace]), chr CHR ''{'']"

definition adjacentArraysRegex :: regex where
  "adjacentArraysRegex = seq [chr CHR '']'', Star True (Class [CSpace]), chr CHR ''['']"

definition keyRegex :: regex where
  "keyRegex =
     seq [Opt (Group 1 (Class [cc CHR 0x27, cc CHR 0x22])),
          Group 2 (Plus True (Class [rng CHR ''a'' CHR ''z'', rng CHR ''A'' CHR ''Z'', rng CHR ''0'' CHR ''9'', cc CHR ''_''])),
          Opt (Group 3 (Class [cc CHR 0x27, cc CHR 0x22])),
          chr CHR '':'']"

definition fancyQuotesRegex :: regex where
  "fancyQuotesRegex = Alt (Lit 8220) (Lit 8221)"

text \<open>The three shapes the function returns: \<open>{error}\<close>, \<open>{error, extracted, raw}\<close> and
  \<open>{summary, issues, suggestions, before_after, notes}\<close>.\<close>

datatype ai_insight =
    NoResponse jsstring
  | InvalidJson jsstring jsstring jsstring
  | Normalized json json json json json

text \<open>\<open>parsed.field || fallback\<close>: the fallback is taken when the property is missing or its
  value is falsy. A number is falsy when its double is zero, which is when the exact value
  is at most \<open>2^-1075\<close> in magnitude. A property of \<open>null\<close> cannot be read: the access throws
  a type error. None of the five names is a property of a string, number, boolean or
  array.\<close>

fun truthy :: "json \<Rightarrow> bool" where
  "truthy JNull = False"
| "truthy (JBool b) = b"
| "truthy (JNumber q) = (\<bar>q\<bar> > 1 / 2 ^ 1075)"
| "truthy (JString s) = (s \<noteq> [])"
| "truthy (JArray xs) = True"
| "truthy (JObject ms) = True"

fun get_prop :: "json \<Rightarrow> jsstring \<Rightarrow> json option" where
  "get_prop (JObject ms) k = map_of (rev ms) k"
| "get_prop v k = None"

definition or_default :: "json option \<Rightarrow> json \<Rightarrow> json" where
  "or_default v d = (case v of None \<Rightarrow> d | Some x \<Rightarrow> if truthy x then x else d)"

definition normalize_insight :: "json \<Rightarrow> js_error + ai_insight" where
  "normalize_insight parsed =
     (if parsed = JNull
      then Inl (TypeError (js ''Cannot read properties of null (reading summary)''))
      else Inr (Normalized
             (or_default (get_prop parsed (js ''summary'')) (JString (js ''No summary provided.'')))
             (or_default (get_prop parsed (js ''issues'')) (JArray []))
             (or_default (get_prop parsed (js ''suggestions'')) (JArray []))
             (or_default (get_prop parsed (js ''before_after'')) JNull)
             (or_default (get_prop parsed (js ''notes'')) (JString (js ''No notes provided.'')))))"

text \<open>Step 1: the interior of the first fenced block tagged \<open>json\<close> if it is not empty,
  else the text from the first \<open>{\<close> to the last \<open>}\<close> if there is one after the other, else
  the whole response.\<close>

definition extract_candidate :: "jsstring \<Rightarrow> jsstring" where
  "extract_candidate rawResponse =
     (let fenced = (case search_from fenceRegex True 0 rawResponse of
                      None \<Rightarrow> []
                    | Some (i, y) \<Rightarrow> captured y 1)
      in if fenced \<noteq> [] then fenced
         else (case (indexOf rawResponse 123, lastIndexOf rawResponse 125) of
                 (Some start, Some end) \<Rightarrow>
                   if end > start then slice rawResponse start (end + 1) else rawResponse
               | other \<Rightarrow> rawResponse))"

text \<open>Step 2, the chain of \<open>replace\<close> calls and \<open>trim\<close>, innermost first.\<close>

definition cleanup :: "jsstring \<Rightarrow> jsstring" where
  "cleanup extractedText =
     trim (replace_first trailingJunkRegex False [TLit (js ''}'')]
       (replace_first leadingJunkRegex False [TLit (js ''{'')]
         (replace_all jsonWordRegex True []
           (replace_all fencesRegex False [] extractedText))))"

text \<open>The repair pass of step 3.\<close>

definition autofix :: "jsstring \<Rightarrow> jsstring" where
  "autofix extractedText =
     replace_all fancyQuotesRegex False [TLit [34]]
       (replace_all keyRegex False [TLit [34], TGroup 2, TLit [34, 58]]
         (replace_all adjacentArraysRegex False [TLit (js ''],['')]
           (replace_all adjacentObjectsRegex False [TLit (js ''},{'')]
             (replace_all trailingCommaRegex False [TGroup 1] extractedText))))"

text \<open>\<open>cleanGeminiResponse(rawResponse)\<close> for a string. The console output of the function is
  left out.\<close>

definition cleanGeminiResponse :: "jsstring \<Rightarrow> js_error + ai_insight" where
  "cleanGeminiResponse rawResponse =
     (if rawResponse = [] then Inr (NoResponse (js ''No response from Gemini''))
      else (let extractedText = cleanup (extract_candidate rawResponse)
            in (case JSON_parse extractedText of
                  Some parsed \<Rightarrow> normalize_insight parsed
                | None \<Rightarrow>
                    (case JSON_parse (autofix extractedText) of
                       Some parsed \<Rightarrow> normalize_insight parsed
                     | None \<Rightarrow>
                         Inr (InvalidJson (js ''Invalid JSON (even after auto-fix)'')
                                (slice extractedText 0 400 @ js ''...'')
                                (slice rawResponse 0 400 @ js ''...''))))))"

section \<open>Model client (genai/client.js)\<close>

text \<open>
  The SDK is the environment of the client. Within one call of \<open>analyzeEndpoint\<close> the
  request is the same at every attempt, so all that the model keeps of a request is the
  model identifier, and the SDK is a function from the identifier and the number of
  requests already sent to the outcome of the next one: a response or an exception. Of a
  response the client reads the text of the first candidate, else the response text, else
  the response printed as JSON.
\<close>

record response =
  candidate_text :: "jsstring option"
  response_text :: "jsstring option"
  stringified :: jsstring

definition text_of :: "response \<Rightarrow> jsstring" where
  "text_of resp =
     (let a = (case candidate_text resp of None \<Rightarrow> [] | Some t \<Rightarrow> t);
          b = (case response_text resp of None \<Rightarrow> [] | Some t \<Rightarrow> t)
      in if a \<noteq> [] then a else if b \<noteq> [] then b else stringified resp)"

type_synonym sdk = "jsstring \<Rightarrow> nat \<Rightarrow> js_error + response"

text \<open>\<open>genaiClient\<close> is \<open>None\<close> when the SDK failed to load. A loaded client offers
  \<open>models.generateContent\<close>, or only \<open>generateContent\<close>, or neither.\<close>

datatype genai_client = ModelsApi sdk | LegacyApi sdk | NoGenerateContent

text \<open>The state the client changes: how many requests have been sent, and the console.
  \<open>attempts\<close> is bookkeeping of the model (the program keeps no such counter): how often
  \<open>run\<close> has been entered.\<close>

record world =
  attempts :: nat
  requests :: nat
  console :: "log_entry list"

text \<open>\<open>err.message\<close>; for a file-system error, which the client never meets, the path stands
  for it. \<open>calling_gemini\<close> is the first argument of the \<open>console.error\<close> call, which starts
  with the code units U+00E2 U+0152 in the source file.\<close>

definition message :: "js_error \<Rightarrow> jsstring" where
  "message e = (case e of Error m \<Rightarrow> m | AbortError m \<Rightarrow> m | TypeError m \<Rightarrow> m | SyntaxError m \<Rightarrow> m
                | ENOENT p \<Rightarrow> p | ENOTDIR p \<Rightarrow> p | EISDIR p \<Rightarrow> p)"

definition calling_gemini :: jsstring where
  "calling_gemini = [226, 338] @ js '' Error calling Gemini:''"

text \<open>\<open>generateTextWithGenAI(model, prompt)\<close>: the check of the client comes before the \<open>try\<close>;
  an exception inside it is logged and thrown again.\<close>

definition call_sdk :: "sdk \<Rightarrow> jsstring \<Rightarrow> world \<Rightarrow> (js_error + jsstring) \<times> world" where
  "call_sdk generateContent model w =
     (case generateContent model (requests w) of
        Inr resp \<Rightarrow> (Inr (text_of resp), w\<lparr>requests := Suc (requests w)\<rparr>)
      | Inl err \<Rightarrow>
          (Inl err, w\<lparr>requests := Suc (requests w),
                      console := console w @ [ErrorLog [calling_gemini, message err]]\<rparr>))"

definition generateTextWithGenAI ::
  "genai_client option \<Rightarrow> jsstring \<Rightarrow> world \<Rightarrow> (js_error + jsstring) \<times> world" where
  "generateTextWithGenAI genaiClient model w =
     (case genaiClient of
        None \<Rightarrow>
          (Inl (Error (js ''GenAI client not initialized. Install @google/genai and set GEMINI_API_KEY in .env'')), w)
      | Some (ModelsApi generateContent) \<Rightarrow> call_sdk generateContent model w
      | Some (LegacyApi generateContent) \<Rightarrow> call_sdk generateContent model w
      | Some NoGenerateContent \<Rightarrow>
          (let err = Error (js ''GenAI SDK found but does not expose generateContent(). Check your @google/genai version.'')
           in (Inl err, w\<lparr>console := console w @ [ErrorLog [calling_gemini, message err]]\<rparr>)))"

text \<open>The function \<open>run\<close> inside \<open>analyzeEndpoint\<close>: one call of the model, then an attempt
  to parse the text, \<open>null\<close> if that throws.\<close>

record run_result =
  raw :: jsstring
  parsed :: json

definition parse_or_null :: "jsstring \<Rightarrow> json" where
  "parse_or_null raw_text =
     (let jsonText = (case (indexOf raw_text 123, lastIndexOf raw_text 125) of
                        (Some firstBrace, Some lastBrace) \<Rightarrow>
                          if lastBrace > firstBrace then slice raw_text firstBrace (lastBrace + 1) else raw_text
                      | other \<Rightarrow> raw_text)
      in (case JSON_parse jsonText of None \<Rightarrow> JNull | Some v \<Rightarrow> v))"

definition run :: "genai_client option \<Rightarrow> jsstring \<Rightarrow> world \<Rightarrow> (js_error + run_result) \<times> world" where
  "run genaiClient model w =
     (case generateTextWithGenAI genaiClient model (w\<lparr>attempts := Suc (attempts w)\<rparr>) of
        (Inl err, w') \<Rightarrow> (Inl err, w')
      | (Inr raw_text, w') \<Rightarrow> (Inr \<lparr>raw = raw_text, parsed = parse_or_null raw_text\<rparr>, w'))"

text \<open>
  \<open>pRetry(run, {retries, onFailedAttempt})\<close> of the package p-retry, which is not part of the
  repository, from its documentation: the task is called once and, while it fails, called
  again up to \<open>retries\<close> more times; then it rejects with the last failure. An \<open>AbortError\<close>
  and a \<open>TypeError\<close> that is not a network failure (the constructor \<open>TypeError\<close> here) end the
  retrying at once. \<open>onFailedAttempt\<close> runs after every failure that is open to a retry. The
  waiting between attempts is not modelled.
\<close>

fun retried :: "js_error \<Rightarrow> bool" where
  "retried (AbortError m) = False"
| "retried (TypeError m) = False"
| "retried e = True"

definition onFailedAttempt :: "js_error \<Rightarrow> world \<Rightarrow> world" where
  "onFailedAttempt err w = w\<lparr>console := console w @ [Warn [js ''GenAI attempt failed:'', message err]]\<rparr>"

fun pRetry ::
  "(world \<Rightarrow> (js_error + 'a) \<times> world) \<Rightarrow> nat \<Rightarrow> world \<Rightarrow> (js_error + 'a) \<times> world" where
  "pRetry task 0 w =
     (case task w of
        (Inr r, w') \<Rightarrow> (Inr r, w')
      | (Inl err, w') \<Rightarrow> (Inl err, if retried err then onFailedAttempt err w' else w'))"
| "pRetry task (Suc retries) w =
     (case task w of
        (Inr r, w') \<Rightarrow> (Inr r, w')
      | (Inl err, w') \<Rightarrow>
          if retried err then pRetry task retries (onFailedAttempt err w') else (Inl err, w'))"

text \<open>\<open>analyzeEndpoint(payload, opts)\<close>. Of the payload only the presence of
  \<open>payload.function\<close> is read here; \<open>opts.retries ?? 3\<close> is the number passed to \<open>pRetry\<close>.\<close>

record 'f payload =
  fn :: "'f option"

record opts =
  opt_model :: "jsstring option"
  opt_retries :: "nat option"

definition analyzeEndpoint ::
  "genai_client option \<Rightarrow> jsstring \<Rightarrow> 'f payload option \<Rightarrow> opts \<Rightarrow> world
     \<Rightarrow> (js_error + run_result) \<times> world" where
  "analyzeEndpoint genaiClient DEFAULT_MODEL pl options w =
     (if (case pl of None \<Rightarrow> True | Some p \<Rightarrow> fn p = None)
      then (Inl (Error (js ''analyzeEndpoint expects a payload with payload.function.cleanedCode/sanitizedCode'')), w)
      else (let model = (case opt_model options of
                           None \<Rightarrow> DEFAULT_MODEL
                         | Some m \<Rightarrow> if m \<noteq> [] then m else DEFAULT_MODEL);
                retries = (case opt_retries options of None \<Rightarrow> 3 | Some n \<Rightarrow> n)
            in pRetry (run genaiClient model) retries w))"


section \<open>Supporting definitions for the properties\<close>

subsection \<open>Document order\<close>

text \<open>The nodes of a tree in the order \<open>traverse\<close> enters them, and what the two visitors
  would extract at a single node.\<close>

fun nodes_of :: "node \<Rightarrow> node list"
  and nodes_of_list :: "node list \<Rightarrow> node list"
  and nodes_of_init :: "node option \<Rightarrow> node list" where
  "nodes_of (Identifier n) = [Identifier n]"
| "nodes_of (FunctionDeclaration fid is_async s e l kids) =
     FunctionDeclaration fid is_async s e l kids # nodes_of_list kids"
| "nodes_of (FunctionExpression is_async s e kids) =
     FunctionExpression is_async s e kids # nodes_of_list kids"
| "nodes_of (ArrowFunctionExpression is_async s e kids) =
     ArrowFunctionExpression is_async s e kids # nodes_of_list kids"
| "nodes_of (VariableDeclarator idn ini s e l) =
     VariableDeclarator idn ini s e l # nodes_of idn @ nodes_of_init ini"
| "nodes_of (OtherNode kids) = OtherNode kids # nodes_of_list kids"
| "nodes_of_list [] = []"
| "nodes_of_list (k # ks) = nodes_of k @ nodes_of_list ks"
| "nodes_of_init None = []"
| "nodes_of_init (Some k) = nodes_of k"

fun is_function_literal :: "node option \<Rightarrow> (bool \<times> nat \<times> nat) option" where
  "is_function_literal (Some (ArrowFunctionExpression is_async s e kids)) = Some (is_async, s, e)"
| "is_function_literal (Some (FunctionExpression is_async s e kids)) = Some (is_async, s, e)"
| "is_function_literal other = None"

fun candidate :: "jsstring \<Rightarrow> jsstring \<Rightarrow> node \<Rightarrow> extracted_function option" where
  "candidate h src (FunctionDeclaration fid is_async s e l kids) =
     (if fid = Some h then Some \<lparr>name = h, code = slice src s e, loc = l, async = is_async\<rparr> else None)"
| "candidate h src (VariableDeclarator idn ini s e l) =
     (if id_name idn = Some h
      then (case is_function_literal ini of
              Some (is_async, s', e') \<Rightarrow> Some \<lparr>name = h, code = slice src s' e', loc = l, async = is_async\<rparr>
            | None \<Rightarrow> None)
      else None)"
| "candidate h src other = None"

fun first_some :: "('a \<Rightarrow> 'b option) \<Rightarrow> 'a list \<Rightarrow> 'b option" where
  "first_some f [] = None"
| "first_some f (x # xs) = (case f x of Some y \<Rightarrow> Some y | None \<Rightarrow> first_some f xs)"


text \<open>The state after a visitor has run: unchanged, or holding the extracted function with
  the traversal stopped.\<close>

definition found :: "traversal \<Rightarrow> extracted_function option \<Rightarrow> traversal" where
  "found st r = (case r of None \<Rightarrow> st | Some x \<Rightarrow> \<lparr>extracted = Some x, stopped = True\<rparr>)"


subsection \<open>Example controller files\<close>

text \<open>Three controller files with the trees the parser gives for them (the root is the
  \<open>File\<close> node, below it the \<open>Program\<close>); offsets count code units from 0. In the first
  file a helper binds \<open>foo\<close> inside \<open>setup\<close>, before the declaration of the handler \<open>foo\<close>.\<close>

definition example_nested_src :: jsstring where
  "example_nested_src =
     js ''function setup() { const foo = () => 1; return foo; } function foo(req, res) { res.send(1); }''"

definition example_nested_ast :: node where
  "example_nested_ast =
     OtherNode [OtherNode
       [FunctionDeclaration (Some (js ''setup'')) False 0 53 ((1, 0), (1, 53))
          [OtherNode
             [OtherNode
                [VariableDeclarator (Identifier (js ''foo''))
                   (Some (ArrowFunctionExpression False 31 38 [OtherNode []]))
                   25 38 ((1, 25), (1, 38))],
              OtherNode [Identifier (js ''foo'')]]],
        FunctionDeclaration (Some (js ''foo'')) False 54 93 ((1, 54), (1, 93))
          [Identifier (js ''req''), Identifier (js ''res''),
           OtherNode [OtherNode [OtherNode [OtherNode [Identifier (js ''res''), Identifier (js ''send'')],
             OtherNode []]]]]]]"

definition example_parse :: "node \<Rightarrow> jsstring \<Rightarrow> js_error + node" where
  "example_parse ast src = Inr ast"

definition example_fs :: "jsstring \<Rightarrow> jsstring \<Rightarrow> filesystem" where
  "example_fs p text = Map.empty (p \<mapsto> File text)"

definition posix_like :: path_module where
  "posix_like = \<lparr>path_basename = (\<lambda>p ext. p), path_join = (\<lambda>d f. d @ [47] @ f), path_relative = (\<lambda>d p. p)\<rparr>"


definition example_decl_src :: jsstring where
  "example_decl_src = js ''function foo(req, res) { res.send(1); }''"

definition example_decl_ast :: node where
  "example_decl_ast =
     OtherNode [OtherNode
       [FunctionDeclaration (Some (js ''foo'')) False 0 39 ((1, 0), (1, 39))
          [Identifier (js ''req''), Identifier (js ''res''),
           OtherNode [OtherNode [OtherNode [OtherNode [Identifier (js ''res''), Identifier (js ''send'')],
             OtherNode []]]]]]]"

definition example_arrow_src :: jsstring where
  "example_arrow_src = js ''const foo = async (req, res) => { res.send(1); };''"

definition example_arrow_ast :: node where
  "example_arrow_ast =
     OtherNode [OtherNode
       [OtherNode
          [VariableDeclarator (Identifier (js ''foo''))
             (Some (ArrowFunctionExpression True 12 48
                [Identifier (js ''req''), Identifier (js ''res''),
                 OtherNode [OtherNode [OtherNode [OtherNode [Identifier (js ''res''), Identifier (js ''send'')],
                   OtherNode []]]]]))
             6 48 ((1, 6), (1, 48))]]]"



subsection \<open>Example environments of the client\<close>

text \<open>Default options, a fresh state, a payload with a function, an SDK that always
  answers 503, and the error of a client that is not configured.\<close>

definition default_opts :: opts where
  "default_opts = \<lparr>opt_model = None, opt_retries = None\<rparr>"

definition fresh :: world where
  "fresh = \<lparr>attempts = 0, requests = 0, console = []\<rparr>"

definition some_payload :: "unit payload option" where
  "some_payload = Some \<lparr>fn = Some ()\<rparr>"

definition unavailable :: sdk where
  "unavailable model k = Inl (Error (js ''503 Service Unavailable''))"

definition not_initialized :: js_error where
  "not_initialized = Error (js ''GenAI client not initialized. Install @google/genai and set GEMINI_API_KEY in .env'')"


subsection \<open>Example file system and responses\<close>

text \<open>A file system with nothing in it, and the raw responses of the adapter's examples.\<close>

definition no_files :: filesystem where
  "no_files = Map.empty"

definition fenced_response :: jsstring where
  "fenced_response =
     js ''```json\<newline>{\"summary\":\"ok\",\"issues\":[],\"suggestions\":[],\"before_after\":null,\"notes\":\"n\"}\<newline>```''"

definition trailing_comma_response :: jsstring where
  "trailing_comma_response = js ''{\"summary\":\"ok\",\"issues\":[],}''"


subsection \<open>Deleting the word \<open>json\<close>\<close>









section \<open>Evaluation\<close>

text \<open>The equations that unfold the patterns and the string functions on a concrete text.\<close>

lemmas rx_simps = routeRegex_def routePattern_def str_def chr_def cc_def rng_def match_at_def
  in_class_def canonicalize_def is_js_space_def is_line_terminator_def is_word_char_def
  ascii_upper_def ascii_lower_def js_def captured_def toUpperCase_def

lemmas ad_simps = fenceRegex_def fencesRegex_def jsonWordRegex_def leadingJunkRegex_def
  trailingJunkRegex_def trailingCommaRegex_def adjacentObjectsRegex_def adjacentArraysRegex_def
  keyRegex_def fancyQuotesRegex_def replace_all_def replace_first_def lastIndexOf_def slice_def
  trim_def is_json_ws_def is_digit_def hex_value_def escape_value_def emit_def num_zero_def
  num_accepting_def parse_step_def JSON_parse_def or_default_def normalize_insight_def extract_candidate_def
  cleanup_def autofix_def cleanGeminiResponse_def

section \<open>Properties of the source extractor\<close>

lemma first_some_append:
  "first_some f (xs @ ys) = (case first_some f xs of Some y \<Rightarrow> Some y | None \<Rightarrow> first_some f ys)"
  by (induction xs) (auto split: option.splits)

lemma visit_FunctionDeclaration_candidate:
  "visit_FunctionDeclaration h src fid a s e l st =
     found st (candidate h src (FunctionDeclaration fid a s e l kids))"
  by (simp add: visit_FunctionDeclaration_def found_def)

lemma visit_VariableDeclarator_candidate:
  "visit_VariableDeclarator h src idn ini l st =
     found st (candidate h src (VariableDeclarator idn ini s e l))"
  by (cases ini rule: is_function_literal.cases)
     (simp_all add: visit_VariableDeclarator_def found_def)

lemma traverse_first_some:
  "\<not> stopped st \<Longrightarrow> traverse_node h src n st = found st (first_some (candidate h src) (nodes_of n))"
  "\<not> stopped st \<Longrightarrow> traverse_nodes h src ks st = found st (first_some (candidate h src) (nodes_of_list ks))"
  "\<not> stopped st \<Longrightarrow> traverse_init h src ini st = found st (first_some (candidate h src) (nodes_of_init ini))"
proof (induction h src n st and h src ks st and h src ini st rule: traverse_node_traverse_nodes_traverse_init.induct)
  case (1 h src n st)
  then show ?case by (simp add: found_def)
next
  case (2 h src fid is_async s e l kids st)
  then show ?case
    by (auto simp: visit_FunctionDeclaration_candidate[where kids=kids] found_def Let_def split: option.splits)
next
  case (3 h src is_async s e kids st)
  then show ?case by (simp add: found_def)
next
  case (4 h src is_async s e kids st)
  then show ?case by (simp add: found_def)
next
  case (5 h src idn ini s e l st)
  let ?f = "candidate h src"
  show ?case
  proof (cases "?f (VariableDeclarator idn ini s e l)")
    case (Some x)
    then show ?thesis
      by (simp add: visit_VariableDeclarator_candidate[where s=s and e=e] found_def Let_def
            del: candidate.simps)
  next
    case None
    then have v: "visit_VariableDeclarator h src idn ini l st = st"
      by (simp add: visit_VariableDeclarator_candidate[where s=s and e=e] found_def
            del: candidate.simps)
    have i: "traverse_node h src idn st = found st (first_some ?f (nodes_of idn))"
      using "5.IH"(1)[OF v[symmetric]] "5.prems" by simp
    show ?thesis
    proof (cases "first_some ?f (nodes_of idn)")
      case (Some y)
      then show ?thesis
        using None v i "5.prems" by (simp add: found_def Let_def first_some_append del: candidate.simps)
    next
      case n: None
      then have i': "traverse_node h src idn st = st"
        using i by (simp add: found_def)
      have "traverse_init h src ini st = found st (first_some ?f (nodes_of_init ini))"
        using "5.IH"(2)[OF v[symmetric] _ i'[symmetric]] "5.prems" by simp
      then show ?thesis
        using None v i' n "5.prems" by (simp add: Let_def first_some_append del: candidate.simps)
    qed
  qed
next
  case (6 h src kids st)
  then show ?case by (simp add: found_def)
next
  case (7 h src st)
  then show ?case by (simp add: found_def)
next
  case (8 h src k ks st)
  then show ?case
    by (auto simp: found_def Let_def first_some_append split: option.splits)
next
  case (9 h src st)
  then show ?case by (simp add: found_def)
next
  case (10 h src k st)
  then show ?case by simp
qed

lemma first_some_nodes_of_program:
  assumes "first_some (candidate h src) (nodes_of_list pre) = None"
  shows "first_some (candidate h src) (nodes_of (OtherNode [OtherNode (pre @ [stmt] @ post)]))
           = (case first_some (candidate h src) (nodes_of stmt) of
                Some x \<Rightarrow> Some x
              | None \<Rightarrow> first_some (candidate h src) (nodes_of_list post))"
proof -
  have "nodes_of_list (pre @ [stmt] @ post) = nodes_of_list pre @ nodes_of stmt @ nodes_of_list post"
    by (induction pre) simp_all
  then show ?thesis
    using assms by (simp add: first_some_append)
qed


text \<open>
  Claim C1 says that a matching function declaration is looked for first and a binding only
  if no declaration matches, so that a declaration later in the file wins over a binding
  earlier in it. In the first example file the binding of \<open>foo\<close> inside \<open>setup\<close> is entered
  before the declaration of \<open>foo\<close>, and the arrow function is what is extracted.
\<close>

theorem extractFunctionCode_declaration_first_counterexample:
  "extractFunctionCode (example_parse example_nested_ast) posix_like
      (example_fs (js ''c.js'') example_nested_src) (js ''c.js'') (js ''foo'')
    = Inr (Some \<lparr>name = js ''foo'', code = js ''() => 1'', loc = ((1, 25), (1, 38)), async = False\<rparr>, [])
   \<and> slice example_nested_src 54 93 = js ''function foo(req, res) { res.send(1); }''
   \<and> js ''() => 1'' \<noteq> js ''function foo(req, res) { res.send(1); }''"
  by (simp add: extractFunctionCode_def example_parse_def example_fs_def existsSync_def
        readFileSync_def example_nested_ast_def visit_FunctionDeclaration_def
        visit_VariableDeclarator_def example_nested_src_def slice_def js_def)


text \<open>
  Claim C1, as the code has it: both visitors run in one traversal of the whole tree, in
  document order and through nested scopes. What is extracted is the first node in that
  order that is a function declaration with the handler's name, or a declarator with the
  handler's name whose initializer is an arrow function or a function expression; the
  traversal stops there. A declaration is extracted exactly when no such binding is entered
  before it.
\<close>

theorem extractFunctionCode_first_match:
  assumes "fs filePath = Some (File src)" and "parse src = Inr ast"
  shows "map_sum id fst (extractFunctionCode parse pm fs filePath h)
           = Inr (first_some (candidate h src) (nodes_of ast))"
proof -
  have "traverse_node h src ast \<lparr>extracted = None, stopped = False\<rparr>
          = found \<lparr>extracted = None, stopped = False\<rparr> (first_some (candidate h src) (nodes_of ast))"
    by (rule traverse_first_some(1)) simp
  then have "extracted (traverse_node h src ast \<lparr>extracted = None, stopped = False\<rparr>)
          = first_some (candidate h src) (nodes_of ast)"
    by (simp add: found_def split: option.splits)
  then show ?thesis
    using assms
    by (simp add: extractFunctionCode_def existsSync_def readFileSync_def Let_def split: option.splits)
qed

theorem extractFunctionCode_first_match_witness:
  "example_fs (js ''c.js'') example_nested_src (js ''c.js'') = Some (File example_nested_src)
   \<and> example_parse example_nested_ast example_nested_src = Inr example_nested_ast
   \<and> map_sum id fst (extractFunctionCode (example_parse example_nested_ast) posix_like
        (example_fs (js ''c.js'') example_nested_src) (js ''c.js'') (js ''foo''))
       = Inr (first_some (candidate (js ''foo'') example_nested_src) (nodes_of example_nested_ast))
   \<and> first_some (candidate (js ''foo'') example_nested_src) (nodes_of example_nested_ast)
       = Some \<lparr>name = js ''foo'', code = js ''() => 1'', loc = ((1, 25), (1, 38)), async = False\<rparr>"
proof -
  have a: "example_fs (js ''c.js'') example_nested_src (js ''c.js'') = Some (File example_nested_src)"
    by (simp add: example_fs_def)
  have b: "example_parse example_nested_ast example_nested_src = Inr example_nested_ast"
    by (simp add: example_parse_def)
  have c: "first_some (candidate (js ''foo'') example_nested_src) (nodes_of example_nested_ast)
       = Some \<lparr>name = js ''foo'', code = js ''() => 1'', loc = ((1, 25), (1, 38)), async = False\<rparr>"
    by (simp add: example_nested_ast_def example_nested_src_def slice_def js_def)
  show ?thesis
    using extractFunctionCode_first_match
      [where fs = "example_fs (js ''c.js'') example_nested_src" and filePath = "js ''c.js''"
         and parse = "example_parse example_nested_ast" and src = example_nested_src
         and ast = example_nested_ast and pm = posix_like and h = "js ''foo''", OF a b]
      a b c by simp
qed

text \<open>
  Claim C8: when the first statement of the program that holds a match is the declaration
  \<open>function h(...) { ... }\<close>, the extracted code is the text of the declaration from its
  first to its last code unit and \<open>async\<close> is false; when it is
  \<open>const h = async (...) => { ... }\<close>, the extracted code is the text of the arrow function
  alone (not of the declarator or of the \<open>const\<close> statement around it) and \<open>async\<close> is true.
\<close>

theorem extraction_spans:
  assumes "fs filePath = Some (File src)"
    and "parse src = Inr (OtherNode [OtherNode (pre @ [stmt] @ post)])"
    and "first_some (candidate h src) (nodes_of_list pre) = None"
  shows "(stmt = FunctionDeclaration (Some h) False s e l kids \<longrightarrow>
            extractFunctionCode parse pm fs filePath h
              = Inr (Some \<lparr>name = h, code = slice src s e, loc = l, async = False\<rparr>, []))
       \<and> (stmt = OtherNode [VariableDeclarator (Identifier h)
                     (Some (ArrowFunctionExpression True s' e' kids')) s0 e0 l'] \<longrightarrow>
            extractFunctionCode parse pm fs filePath h
              = Inr (Some \<lparr>name = h, code = slice src s' e', loc = l', async = True\<rparr>, []))"
proof -
  let ?r = "first_some (candidate h src) (nodes_of (OtherNode [OtherNode (pre @ [stmt] @ post)]))"
  have t: "extracted (traverse_node h src (OtherNode [OtherNode (pre @ [stmt] @ post)])
             \<lparr>extracted = None, stopped = False\<rparr>) = ?r"
    by (simp add: traverse_first_some(1) found_def del: traverse_node.simps nodes_of.simps
          split: option.splits)
  have r: "?r = (case first_some (candidate h src) (nodes_of stmt) of
                Some x \<Rightarrow> Some x
              | None \<Rightarrow> first_some (candidate h src) (nodes_of_list post))"
    by (rule first_some_nodes_of_program [OF assms(3)])
  have e: "extractFunctionCode parse pm fs filePath h
             = (case ?r of
                  None \<Rightarrow> Inr (None, [Warn [warning_sign @ js '' Handler '' @ [39] @ h
                                    @ [39] @ js '' not found in '' @ path_basename pm filePath None]])
                | Some x \<Rightarrow> Inr (Some x, []))"
    using assms(1,2) t
    by (cases ?r)
       (simp_all add: extractFunctionCode_def existsSync_def readFileSync_def Let_def
          del: traverse_node.simps nodes_of.simps)
  show ?thesis
    unfolding e r by simp
qed

theorem extraction_spans_witness:
  "extractFunctionCode (example_parse example_decl_ast) posix_like
      (example_fs (js ''c.js'') example_decl_src) (js ''c.js'') (js ''foo'')
     = Inr (Some \<lparr>name = js ''foo'', code = js ''function foo(req, res) { res.send(1); }'',
                  loc = ((1, 0), (1, 39)), async = False\<rparr>, [])
   \<and> extractFunctionCode (example_parse example_arrow_ast) posix_like
      (example_fs (js ''c.js'') example_arrow_src) (js ''c.js'') (js ''foo'')
     = Inr (Some \<lparr>name = js ''foo'', code = js ''async (req, res) => { res.send(1); }'',
                  loc = ((1, 6), (1, 48)), async = True\<rparr>, [])"
proof -
  have fs1: "example_fs (js ''c.js'') example_decl_src (js ''c.js'') = Some (File example_decl_src)"
    by (simp add: example_fs_def)
  have fs2: "example_fs (js ''c.js'') example_arrow_src (js ''c.js'') = Some (File example_arrow_src)"
    by (simp add: example_fs_def)
  have p1: "example_parse example_decl_ast example_decl_src
      = Inr (OtherNode [OtherNode ([] @
       [FunctionDeclaration (Some (js ''foo'')) False 0 39 ((1, 0), (1, 39))
          [Identifier (js ''req''), Identifier (js ''res''),
           OtherNode [OtherNode [OtherNode [OtherNode [Identifier (js ''res''), Identifier (js ''send'')],
             OtherNode []]]]]] @ [])])"
    by (simp add: example_parse_def example_decl_ast_def)
  have p2: "example_parse example_arrow_ast example_arrow_src
      = Inr (OtherNode [OtherNode ([] @
       [OtherNode
          [VariableDeclarator (Identifier (js ''foo''))
             (Some (ArrowFunctionExpression True 12 48
                [Identifier (js ''req''), Identifier (js ''res''),
                 OtherNode [OtherNode [OtherNode [OtherNode [Identifier (js ''res''), Identifier (js ''send'')],
                   OtherNode []]]]]))
             6 48 ((1, 6), (1, 48))]] @ [])])"
    by (simp add: example_parse_def example_arrow_ast_def)
  have n1: "first_some (candidate (js ''foo'') example_decl_src) (nodes_of_list []) = None" by simp
  have n2: "first_some (candidate (js ''foo'') example_arrow_src) (nodes_of_list []) = None" by simp
  have s1: "slice example_decl_src 0 39 = js ''function foo(req, res) { res.send(1); }''"
    by (simp add: example_decl_src_def slice_def js_def)
  have s2: "slice example_arrow_src 12 48 = js ''async (req, res) => { res.send(1); }''"
    by (simp add: example_arrow_src_def slice_def js_def)
  from extraction_spans
    [where fs = "example_fs (js ''c.js'') example_decl_src" and filePath = "js ''c.js''"
       and parse = "example_parse example_decl_ast" and src = example_decl_src
       and pre = "[]" and post = "[]" and h = "js ''foo''", OF fs1 p1 n1]
  have a: "extractFunctionCode (example_parse example_decl_ast) posix_like
      (example_fs (js ''c.js'') example_decl_src) (js ''c.js'') (js ''foo'')
     = Inr (Some \<lparr>name = js ''foo'', code = slice example_decl_src 0 39,
                  loc = ((1, 0), (1, 39)), async = False\<rparr>, [])"
    by blast
  from extraction_spans
    [where fs = "example_fs (js ''c.js'') example_arrow_src" and filePath = "js ''c.js''"
       and parse = "example_parse example_arrow_ast" and src = example_arrow_src
       and pre = "[]" and post = "[]" and h = "js ''foo''", OF fs2 p2 n2]
  have b: "extractFunctionCode (example_parse example_arrow_ast) posix_like
      (example_fs (js ''c.js'') example_arrow_src) (js ''c.js'') (js ''foo'')
     = Inr (Some \<lparr>name = js ''foo'', code = slice example_arrow_src 12 48,
                  loc = ((1, 6), (1, 48)), async = True\<rparr>, [])"
    by blast
  show ?thesis using a b s1 s2 by simp
qed

section \<open>Properties of the endpoint scanner\<close>

lemma exec_routeRegex:
  "exec_loop routeRegex False 0 0 (js ''router.get(\"/users/:id\", getUser)'')
     = Some [MState 32 [41] [(3, js ''getUser''), (2, js ''/users/:id''), (1, js ''get'')]]"
  by (simp add: rx_simps)

lemma exec_routePattern:
  "exec_loop routePattern True 0 0 (js ''router.get(\"/users/:id\", getUser)'')
     = Some [MState 32 [41] [(3, js ''getUser''), (2, js ''/users/:id''), (1, js ''get'')]]"
  by (simp add: rx_simps)

text \<open>
  Claim C9: for a route file that holds the single line
  \<open>router.get("/users/:id", getUser)\<close>, both versions of the scanner return exactly one
  endpoint, with method \<open>GET\<close>, path \<open>/users/:id\<close> and handler \<open>getUser\<close>; its fourth field
  is the controller file derived from the route file's name (first version) or the route
  file's relative path (second version). Nothing is written to the console.
\<close>

theorem scanner_precision:
  "scanRoutesFile pm (fs(p \<mapsto> File (js ''router.get(\"/users/:id\", getUser)''))) p
     = Some (Inr ([\<lparr>method' = js ''GET'', path = js ''/users/:id'', handler = js ''getUser'',
                     controller = replace_string (path_basename pm p (Some (js ''.js'')))
                                    (js ''.routes'') (js ''.controller.js'')\<rparr>], []))
   \<and> extractEndpointsFromFile pm cwd (fs(p \<mapsto> File (js ''router.get(\"/users/:id\", getUser)''))) p
     = Some (Inr [\<lparr>method' = js ''GET'', path = js ''/users/:id'', handler = js ''getUser'',
                    file' = path_relative pm cwd p\<rparr>])"
proof -
  have u: "toUpperCase (js ''get'') = js ''GET''"
    by (simp add: toUpperCase_def js_def ascii_upper_def)
  show ?thesis
    by (simp add: scanRoutesFile_def extractEndpointsFromFile_def existsSync_def readFileSync_def
          exec_routeRegex exec_routePattern captured_def u Let_def)
qed

text \<open>
  Claim C3 says that every scanner of the repository answers a path that does not exist
  with an empty list and a warning. On a file system without the path the first version
  does so for a file and for a directory; the second version has no check of its own, and
  \<open>readFileSync\<close> and \<open>readdirSync\<close> throw \<open>ENOENT\<close>.
\<close>

theorem missing_path_outcomes:
  "scanRoutesFile posix_like no_files (js ''/srv/routes/user.routes.js'')
     = Some (Inr ([], [Warn [warning_sign @ js '' Route file not found:'', js ''/srv/routes/user.routes.js'']]))
   \<and> scanRoutesDirectory posix_like no_files (js ''/srv/routes'')
     = Some (Inr ([], [Warn [warning_sign @ js '' Routes directory not found:'', js ''/srv/routes'']]))
   \<and> extractEndpointsFromFile posix_like (js ''/srv'') no_files (js ''/srv/routes/user.routes.js'')
     = Some (Inl (ENOENT (js ''/srv/routes/user.routes.js'')))
   \<and> scanRoutesDirectory2 posix_like (js ''/srv'') no_files (js ''/srv/routes'')
     = Some (Inl (ENOENT (js ''/srv/routes'')))"
  by (simp add: scanRoutesFile_def scanRoutesDirectory_def extractEndpointsFromFile_def
        scanRoutesDirectory2_def existsSync_def readFileSync_def readdirSync_def no_files_def)


section \<open>Properties of the response adapter\<close>

text \<open>
  Claim C5: the response that is a fenced block tagged \<open>json\<close> around the object
  \<open>{"summary":"ok","issues":[],"suggestions":[],"before_after":null,"notes":"n"}\<close> comes
  back as the insight with exactly these five values.
\<close>

theorem fenced_response_round_trip:
  "cleanGeminiResponse fenced_response
     = Inr (Normalized (JString (js ''ok'')) (JArray []) (JArray []) JNull (JString (js ''n'')))"
  by (simp add: rx_simps ad_simps fenced_response_def)

text \<open>
  Claim C6: on \<open>{"summary":"ok","issues":[],}\<close> the strict parse fails, the repair pass
  removes the comma before the closing brace, the second parse succeeds, and the result is
  the normalized insight with summary \<open>ok\<close>, not an error shape.
\<close>

theorem trailing_comma_repaired:
  "JSON_parse (cleanup (extract_candidate trailing_comma_response)) = None
   \<and> autofix (cleanup (extract_candidate trailing_comma_response))
       = js ''{\"summary\":\"ok\",\"issues\":[]}''
   \<and> cleanGeminiResponse trailing_comma_response
       = Inr (Normalized (JString (js ''ok'')) (JArray []) (JArray []) JNull
                (JString (js ''No notes provided.'')))"
proof -
  have c: "cleanup (extract_candidate trailing_comma_response) = trailing_comma_response"
    by (simp add: rx_simps ad_simps trailing_comma_response_def)
  have p: "JSON_parse trailing_comma_response = None"
    by (simp add: rx_simps ad_simps trailing_comma_response_def)
  have f: "autofix trailing_comma_response = js ''{\"summary\":\"ok\",\"issues\":[]}''"
    by (simp add: rx_simps ad_simps trailing_comma_response_def)
  have q: "JSON_parse (js ''{\"summary\":\"ok\",\"issues\":[]}'')
             = Some (JObject [(js ''summary'', JString (js ''ok'')), (js ''issues'', JArray [])])"
    by (simp add: rx_simps ad_simps)
  have n: "normalize_insight (JObject [(js ''summary'', JString (js ''ok'')), (js ''issues'', JArray [])])
             = Inr (Normalized (JString (js ''ok'')) (JArray []) (JArray []) JNull
                      (JString (js ''No notes provided.'')))"
    by (simp add: normalize_insight_def or_default_def js_def)
  have r: "trailing_comma_response \<noteq> []"
    by (simp add: trailing_comma_response_def js_def)
  show ?thesis
    unfolding cleanGeminiResponse_def Let_def c using p f q n r by simp
qed

text \<open>
  Claim C7: when the response is not empty and neither the cleaned candidate nor its
  repaired form parses, the result is the error shape: the error message is not empty, and
  the fields \<open>extracted\<close> and \<open>raw\<close> are the first 400 code units at most of the cleaned
  candidate and of the response, each followed by three dots.
\<close>

theorem unrecoverable_response:
  assumes "rawResponse \<noteq> []"
    and "JSON_parse (cleanup (extract_candidate rawResponse)) = None"
    and "JSON_parse (autofix (cleanup (extract_candidate rawResponse))) = None"
  shows "cleanGeminiResponse rawResponse
           = Inr (InvalidJson (js ''Invalid JSON (even after auto-fix)'')
                    (take 400 (cleanup (extract_candidate rawResponse)) @ js ''...'')
                    (take 400 rawResponse @ js ''...''))
       \<and> js ''Invalid JSON (even after auto-fix)'' \<noteq> []
       \<and> length (take 400 (cleanup (extract_candidate rawResponse))) \<le> 400
       \<and> length (take 400 rawResponse) \<le> 400"
  using assms by (simp add: cleanGeminiResponse_def Let_def slice_def js_def)

theorem unrecoverable_response_witness:
  "js ''no braces here'' \<noteq> []
   \<and> JSON_parse (cleanup (extract_candidate (js ''no braces here''))) = None
   \<and> JSON_parse (autofix (cleanup (extract_candidate (js ''no braces here'')))) = None
   \<and> cleanGeminiResponse (js ''no braces here'')
       = Inr (InvalidJson (js ''Invalid JSON (even after auto-fix)'')
                (js ''no braces here...'') (js ''no braces here...''))"
proof -
  have a: "js ''no braces here'' \<noteq> []"
    by (simp add: js_def)
  have c: "cleanup (extract_candidate (js ''no braces here'')) = js ''no braces here''"
    by (simp add: rx_simps ad_simps)
  have b: "JSON_parse (cleanup (extract_candidate (js ''no braces here''))) = None"
    unfolding c by (simp add: rx_simps ad_simps)
  have f: "autofix (js ''no braces here'') = js ''no braces here''"
    by (simp add: rx_simps ad_simps)
  have d: "JSON_parse (autofix (cleanup (extract_candidate (js ''no braces here'')))) = None"
    unfolding c f by (simp add: rx_simps ad_simps)
  have t: "take 400 (js ''no braces here'') @ js ''...'' = js ''no braces here...''"
    by (simp add: js_def)
  show ?thesis
    using unrecoverable_response [OF a b d] a b d c t by simp
qed


subsection \<open>The word \<open>json\<close> inside string values\<close>





















































section \<open>Properties of the model client\<close>

lemma run_attempts: "attempts (snd (run c m w)) = Suc (attempts w)"
  by (auto simp: run_def generateTextWithGenAI_def call_sdk_def Let_def
           split: option.splits genai_client.splits sum.splits prod.splits)

lemma onFailedAttempt_attempts [simp]: "attempts (onFailedAttempt e w) = attempts w"
  by (simp add: onFailedAttempt_def)

lemma pRetry_attempts_le:
  assumes "\<And>w. attempts (snd (task w)) = Suc (attempts w)"
  shows "attempts (snd (pRetry task n w)) \<le> attempts w + n + 1"
proof (induction n arbitrary: w)
  case 0
  show ?case using assms[of w] by (auto split: prod.splits sum.splits)
next
  case (Suc n)
  show ?case
  proof (cases "task w")
    case (Pair r w')
    have a: "attempts w' = Suc (attempts w)" using assms[of w] Pair by simp
    show ?thesis
    proof (cases r)
      case (Inl err)
      show ?thesis
        using Pair Inl a Suc.IH[of "onFailedAttempt err w'"] by auto
    next
      case (Inr v)
      then show ?thesis using Pair a by simp
    qed
  qed
qed

text \<open>
  Claim C4 says that by default no more than 3 attempts are made. With an SDK that fails
  every request with an error open to a retry, and the default options, \<open>run\<close> is entered
  four times and four requests are sent before the error reaches the caller.
\<close>

theorem analyzeEndpoint_default_attempts_counterexample:
  "attempts (snd (analyzeEndpoint (Some (ModelsApi unavailable)) (js ''gemini-2.5-flash'')
      some_payload default_opts fresh)) = 4
   \<and> requests (snd (analyzeEndpoint (Some (ModelsApi unavailable)) (js ''gemini-2.5-flash'')
      some_payload default_opts fresh)) = 4
   \<and> fst (analyzeEndpoint (Some (ModelsApi unavailable)) (js ''gemini-2.5-flash'')
      some_payload default_opts fresh) = Inl (Error (js ''503 Service Unavailable''))"
  by (simp add: analyzeEndpoint_def some_payload_def default_opts_def fresh_def numeral_3_eq_3
        run_def generateTextWithGenAI_def call_sdk_def unavailable_def onFailedAttempt_def)

text \<open>
  Claim C4, as the code has it: \<open>opts.retries ?? 3\<close> is the number of retries after the first
  attempt, so one call of \<open>analyzeEndpoint\<close> enters \<open>run\<close> at most \<open>retries + 1\<close> times: at
  most 4 times by default.
\<close>

theorem analyzeEndpoint_attempts_bound:
  "attempts (snd (analyzeEndpoint c dm pl options w))
     \<le> attempts w + (case opt_retries options of None \<Rightarrow> 3 | Some n \<Rightarrow> n) + 1"
proof -
  let ?n = "case opt_retries options of None \<Rightarrow> 3 | Some n \<Rightarrow> n"
  have b: "attempts (snd (pRetry (run c m) ?n w)) \<le> attempts w + ?n + 1" for m
    by (rule pRetry_attempts_le) (rule run_attempts)
  show ?thesis
    unfolding analyzeEndpoint_def Let_def using b by (simp split: option.splits)
qed

lemma run_not_configured:
  "run None m w = (Inl not_initialized, w\<lparr>attempts := Suc (attempts w)\<rparr>)"
  by (simp add: run_def generateTextWithGenAI_def not_initialized_def)

lemma pRetry_not_configured:
  "fst (pRetry (run None m) n w) = Inl not_initialized
   \<and> attempts (snd (pRetry (run None m) n w)) = attempts w + n + 1
   \<and> requests (snd (pRetry (run None m) n w)) = requests w"
  by (induction n arbitrary: w)
     (simp_all add: run_not_configured not_initialized_def onFailedAttempt_def)

text \<open>
  Claim C2 says that a client that is not configured fails at once, without a retry. With
  the default options \<open>run\<close> is entered four times, and the console holds the warning of
  \<open>onFailedAttempt\<close> four times.
\<close>

theorem not_configured_no_retry_counterexample:
  "attempts (snd (analyzeEndpoint None (js ''gemini-2.5-flash'') some_payload default_opts fresh)) = 4
   \<and> console (snd (analyzeEndpoint None (js ''gemini-2.5-flash'') some_payload default_opts fresh))
       = replicate 4 (Warn [js ''GenAI attempt failed:'', message not_initialized])"
  by (simp add: analyzeEndpoint_def some_payload_def default_opts_def fresh_def numeral_3_eq_3
        numeral_eq_Suc run_not_configured not_initialized_def onFailedAttempt_def)


text \<open>
  Claim C2, as the code has it: when the client is not configured, every attempt fails with
  the error of the missing client before any request is sent; the error is retried like any
  other failure of the task, and after \<open>retries + 1\<close> attempts (4 by default) it is what the
  caller gets.
\<close>

theorem not_configured_is_retried:
  assumes "pl = Some p" and "fn p = Some f"
  shows "fst (analyzeEndpoint None dm pl options w) = Inl not_initialized
       \<and> requests (snd (analyzeEndpoint None dm pl options w)) = requests w
       \<and> attempts (snd (analyzeEndpoint None dm pl options w))
           = attempts w + (case opt_retries options of None \<Rightarrow> 3 | Some n \<Rightarrow> n) + 1"
  using assms unfolding analyzeEndpoint_def
  by (simp add: Let_def pRetry_not_configured split: option.splits)

theorem not_configured_is_retried_witness:
  "some_payload = Some \<lparr>fn = Some ()\<rparr> \<and> fn \<lparr>fn = Some ()\<rparr> = Some ()
   \<and> fst (analyzeEndpoint None (js ''gemini-2.5-flash'') some_payload default_opts fresh) = Inl not_initialized
   \<and> requests (snd (analyzeEndpoint None (js ''gemini-2.5-flash'') some_payload default_opts fresh)) = 0
   \<and> attempts (snd (analyzeEndpoint None (js ''gemini-2.5-flash'') some_payload default_opts fresh)) = 4"
proof -
  have a: "some_payload = Some \<lparr>fn = Some ()\<rparr>" by (simp add: some_payload_def)
  have b: "fn \<lparr>fn = Some ()\<rparr> = Some ()" by simp
  show ?thesis
    using not_configured_is_retried [OF a b, of "js ''gemini-2.5-flash''" default_opts fresh] a b
    by (simp add: default_opts_def fresh_def)
qed


end
